theory Spec2Isabelle
  imports Main "HOL-Library.Multiset"
begin

section \<open>Mailbox audit settings collector (script.py)\<close>

text \<open>
  The script reads the rows of \<^verbatim>\<open>mailboxes.csv\<close>, skips the first one, starts one
  \<^verbatim>\<open>get_mailbox_audit_settings\<close> task per remaining row, gathers the results and writes
  the non-\<^verbatim>\<open>None\<close> ones to \<^verbatim>\<open>audit_settings.csv\<close>.

  The Graph client, the CSV reader and the file system are not part of the script. They
  appear here as follows.
  \<^item> The client is a parameter: a function from the request path to what
    \<^verbatim>\<open>await client.get(path)\<close> does, which is to raise or to return a response; a response
    carries its status code and what \<^verbatim>\<open>result.json()\<close> does (raise or return a value).
  \<^item> The input file is given by the rows that \<^verbatim>\<open>csv.reader\<close> yields from it, or is absent.
    Files that exist but cannot be read or decoded are outside the model, and so is an
    output path that cannot be opened for writing.
  \<^item> Exceptions are the instances of Python's \<^verbatim>\<open>Exception\<close>, a class name and the text
    \<^verbatim>\<open>str(e)\<close>. Interpreter signals that derive from \<^verbatim>\<open>BaseException\<close> only
    (\<^verbatim>\<open>KeyboardInterrupt\<close>, \<^verbatim>\<open>SystemExit\<close>, task cancellation) are outside the model.
  \<^item> Text is a list of 8-bit characters; characters from \<^verbatim>\<open>0x80\<close> on are copied by
    \<^verbatim>\<open>repr\<close> as Python copies printable non-ASCII characters.
\<close>

subsection \<open>Python values and their text\<close>

text \<open>
  The values \<^verbatim>\<open>json()\<close> can decode to, and the rows of the reader (lists of strings).
  A float is carried as the text \<^verbatim>\<open>str\<close> gives for it, the only thing the script does
  with one. A dict is the list of its items in insertion order, its keys distinct.
\<close>

datatype py_value =
    PyNone
  | PyBool bool
  | PyInt int
  | PyFloat string
  | PyStr string
  | PyList "py_value list"
  | PyDict "(string \<times> py_value) list"

datatype py_exception = PyException (exc_class: string) (exc_str: string)

text \<open>\<^verbatim>\<open>sep.join(parts)\<close>\<close>

fun str_join :: "string \<Rightarrow> string list \<Rightarrow> string" where
  "str_join sep [] = []"
| "str_join sep [x] = x"
| "str_join sep (x # y # ys) = x @ sep @ str_join sep (y # ys)"

definition digit_char :: "nat \<Rightarrow> char" where
  "digit_char d = ''0123456789abcdef'' ! (d mod 16)"

text \<open>\<^verbatim>\<open>str\<close> of an \<^verbatim>\<open>int\<close>: decimal digits, a minus sign before a negative one.\<close>

function decimal :: "nat \<Rightarrow> string" where
  "decimal n = (if n div 10 = 0 then [] else decimal (n div 10)) @ [digit_char (n mod 10)]"
  by pat_completeness auto
termination
  by (relation "measure id") auto

definition py_str_int :: "int \<Rightarrow> string" where
  "py_str_int i = (if i < 0 then ''-'' @ decimal (nat (- i)) else decimal (nat i))"

text \<open>
  \<^verbatim>\<open>repr\<close> of a \<^verbatim>\<open>str\<close>: single quotes, unless the text has a single quote and no double
  quote; the quote in use and the backslash are escaped, tab, newline and carriage return
  have their letter, other control characters are \<^verbatim>\<open>\xNN\<close>.
\<close>

definition repr_quote :: "string \<Rightarrow> char" where
  "repr_quote s = (if CHR 0x27 \<in> set s \<and> CHR 0x22 \<notin> set s then CHR 0x22 else CHR 0x27)"

definition repr_char :: "char \<Rightarrow> char \<Rightarrow> string" where
  "repr_char q c =
     (if c = q \<or> c = CHR 0x5C then [CHR 0x5C, c]
      else if c = CHR 0x09 then [CHR 0x5C, CHR ''t'']
      else if c = CHR 0x0A then [CHR 0x5C, CHR ''n'']
      else if c = CHR 0x0D then [CHR 0x5C, CHR ''r'']
      else if (of_char c :: nat) < 32 \<or> c = CHR 0x7F
        then [CHR 0x5C, CHR ''x'', digit_char (of_char c div 16), digit_char (of_char c mod 16)]
      else [c])"

definition py_repr_str :: "string \<Rightarrow> string" where
  "py_repr_str s = (let q = repr_quote s in [q] @ concat (map (repr_char q) s) @ [q])"

fun py_repr :: "py_value \<Rightarrow> string" where
  "py_repr PyNone = ''None''"
| "py_repr (PyBool b) = (if b then ''True'' else ''False'')"
| "py_repr (PyInt i) = py_str_int i"
| "py_repr (PyFloat s) = s"
| "py_repr (PyStr s) = py_repr_str s"
| "py_repr (PyList xs) = ''['' @ str_join '', '' (map py_repr xs) @ '']''"
| "py_repr (PyDict kvs) =
     ''{'' @ str_join '', '' (map (\<lambda>(k, v). py_repr_str k @ '': '' @ py_repr v) kvs) @ ''}''"

text \<open>\<^verbatim>\<open>str(v)\<close>, which is also what \<^verbatim>\<open>{v}\<close> in an f-string gives.\<close>

fun py_str :: "py_value \<Rightarrow> string" where
  "py_str (PyStr s) = s"
| "py_str v = py_repr v"

fun type_name :: "py_value \<Rightarrow> string" where
  "type_name PyNone = ''NoneType''"
| "type_name (PyBool _) = ''bool''"
| "type_name (PyInt _) = ''int''"
| "type_name (PyFloat _) = ''float''"
| "type_name (PyStr _) = ''str''"
| "type_name (PyList _) = ''list''"
| "type_name (PyDict _) = ''dict''"

fun is_dict :: "py_value \<Rightarrow> bool" where
  "is_dict (PyDict _) = True"
| "is_dict _ = False"

definition AttributeError :: "py_value \<Rightarrow> string \<Rightarrow> py_exception" where
  "AttributeError v attr =
     PyException ''AttributeError''
       ([CHR 0x27] @ type_name v @ [CHR 0x27] @ '' object has no attribute ''
        @ [CHR 0x27] @ attr @ [CHR 0x27])"

text \<open>
  \<^verbatim>\<open>settings.get(key)\<close>: on a dict the value stored under the key, \<^verbatim>\<open>None\<close> when the
  key is absent; every other decoded value has no attribute \<^verbatim>\<open>get\<close>.
\<close>

fun py_get :: "py_value \<Rightarrow> string \<Rightarrow> py_exception + py_value" where
  "py_get (PyDict kvs) key = Inr (case map_of kvs key of None \<Rightarrow> PyNone | Some v \<Rightarrow> v)"
| "py_get v key = Inl (AttributeError v ''get'')"

subsection \<open>The Graph client\<close>

record response =
  status_code :: nat
  json :: "py_exception + py_value"

type_synonym graph_client = "string \<Rightarrow> py_exception + response"

subsection \<open>get\_mailbox\_audit\_settings\<close>

record audit_settings =
  Mailbox :: py_value
  AuditEnabled :: py_value
  AuditLogAgeLimit :: py_value

definition request_path :: "py_value \<Rightarrow> string" where
  "request_path user_principal_name = ''/users/'' @ py_str user_principal_name @ ''/mailboxSettings''"

text \<open>The body of the \<^verbatim>\<open>try\<close> (lines 24 to 31): each step either raises or goes on.\<close>

definition try_block :: "graph_client \<Rightarrow> py_value \<Rightarrow> py_exception + audit_settings" where
  "try_block client user_principal_name =
     (case client (request_path user_principal_name) of
        Inl e \<Rightarrow> Inl e
      | Inr result \<Rightarrow>
          (case json result of
             Inl e \<Rightarrow> Inl e
           | Inr settings \<Rightarrow>
               (case py_get settings ''auditEnabled'' of
                  Inl e \<Rightarrow> Inl e
                | Inr enabled \<Rightarrow>
                    (case py_get settings ''auditLogAgeLimit'' of
                       Inl e \<Rightarrow> Inl e
                     | Inr age_limit \<Rightarrow>
                         Inr \<lparr>Mailbox = user_principal_name, AuditEnabled = enabled,
                              AuditLogAgeLimit = age_limit\<rparr>))))"

definition error_line :: "py_value \<Rightarrow> py_exception \<Rightarrow> string" where
  "error_line user_principal_name e =
     ''Error getting settings for '' @ py_str user_principal_name @ '': '' @ exc_str e"

text \<open>
  What one call does: the path it asks the client for, the lines it prints, and the value
  it returns (\<open>None\<close> is Python's \<^verbatim>\<open>None\<close>).
\<close>

record fetch =
  requested :: string
  lines :: "string list"
  returned :: "audit_settings option"

definition get_mailbox_audit_settings :: "graph_client \<Rightarrow> py_value \<Rightarrow> fetch" where
  "get_mailbox_audit_settings client user_principal_name =
     (case try_block client user_principal_name of
        Inr r \<Rightarrow>
          \<lparr>requested = request_path user_principal_name, lines = [], returned = Some r\<rparr>
      | Inl e \<Rightarrow>
          \<lparr>requested = request_path user_principal_name,
           lines = [error_line user_principal_name e], returned = None\<rparr>)"

subsection \<open>Files\<close>

datatype input_file = NoSuchFile | FileRows "string list list"

record files =
  mailboxes_csv :: input_file
  audit_settings_csv :: "string option"

definition FileNotFoundError :: "string \<Rightarrow> py_exception" where
  "FileNotFoundError path =
     PyException ''FileNotFoundError''
       (''[Errno 2] No such file or directory: '' @ py_repr_str path)"

definition input_csv :: string where
  "input_csv = ''mailboxes.csv''"

text \<open>\<^verbatim>\<open>open(input_csv, "r")\<close> followed by \<^verbatim>\<open>csv.reader(f)\<close>: the rows still to be read.\<close>

fun open_reader :: "input_file \<Rightarrow> py_exception + string list list" where
  "open_reader NoSuchFile = Inl (FileNotFoundError input_csv)"
| "open_reader (FileRows rows) = Inr rows"

text \<open>\<^verbatim>\<open>next(reader)\<close>: the next row and the reader after it.\<close>

fun py_next :: "string list list \<Rightarrow> py_exception + string list \<times> string list list" where
  "py_next [] = Inl (PyException ''StopIteration'' [])"
| "py_next (row # rest) = Inr (row, rest)"

text \<open>
  An exception that leaves the body of a coroutine: a \<^verbatim>\<open>StopIteration\<close> is replaced by a
  \<^verbatim>\<open>RuntimeError\<close>, any other goes through.
\<close>

definition coroutine_raise :: "py_exception \<Rightarrow> py_exception" where
  "coroutine_raise e =
     (if exc_class e = ''StopIteration''
      then PyException ''RuntimeError'' ''coroutine raised StopIteration''
      else e)"

subsection \<open>The CSV writer\<close>

text \<open>
  \<^verbatim>\<open>csv.writer\<close> with the default dialect: \<^verbatim>\<open>None\<close> is written as the empty field, a string
  as it is, anything else through \<^verbatim>\<open>str\<close>; a field holding the delimiter, the quote
  character or a character of the line terminator is quoted, its quotes doubled; a record
  ends with \<^verbatim>\<open>\r\n\<close>.
\<close>

fun field_text :: "py_value \<Rightarrow> string" where
  "field_text PyNone = []"
| "field_text v = py_str v"

definition needs_quoting :: "char \<Rightarrow> bool" where
  "needs_quoting c = (c = CHR '','' \<or> c = CHR 0x22 \<or> c = CHR 0x0D \<or> c = CHR 0x0A)"

definition write_field :: "string \<Rightarrow> string" where
  "write_field s =
     (if list_ex needs_quoting s
      then [CHR 0x22] @ concat (map (\<lambda>c. if c = CHR 0x22 then [c, c] else [c]) s) @ [CHR 0x22]
      else s)"

definition writerow :: "py_value list \<Rightarrow> string" where
  "writerow row =
     (if map field_text row = [[]] then [CHR 0x22, CHR 0x22]
      else str_join '','' (map (write_field \<circ> field_text) row))
     @ [CHR 0x0D, CHR 0x0A]"

definition fieldnames :: "string list" where
  "fieldnames = [''Mailbox'', ''AuditEnabled'', ''AuditLogAgeLimit'']"

definition writeheader :: string where
  "writeheader = writerow (map PyStr fieldnames)"

text \<open>The row of a dict with the three keys, in the order of \<open>fieldnames\<close>.\<close>

definition dict_to_list :: "audit_settings \<Rightarrow> py_value list" where
  "dict_to_list r = [Mailbox r, AuditEnabled r, AuditLogAgeLimit r]"

definition writerows :: "audit_settings list \<Rightarrow> string" where
  "writerows rs = concat (map (writerow \<circ> dict_to_list) rs)"

subsection \<open>main\<close>

text \<open>
  A run: the exception that ended it, if any; the paths asked of the client, in the order
  of the tasks; the lines printed (the tasks print in the order they complete, so only
  the collection of lines is recorded); and the files afterwards.
\<close>

record run =
  raised :: "py_exception option"
  requests :: "string list"
  printed :: "string multiset"
  files_after :: files

definition aborted :: "py_exception \<Rightarrow> files \<Rightarrow> run" where
  "aborted e fs =
     \<lparr>raised = Some (coroutine_raise e), requests = [], printed = {#}, files_after = fs\<rparr>"

text \<open>A row of the reader as the Python value it is: a list of strings.\<close>

definition row_value :: "string list \<Rightarrow> py_value" where
  "row_value row = PyList (map PyStr row)"

text \<open>Line 44: one task per row, the row itself being the argument.\<close>

definition tasks :: "graph_client \<Rightarrow> string list list \<Rightarrow> fetch list" where
  "tasks client mailboxes =
     map (\<lambda>mailbox. get_mailbox_audit_settings client (row_value mailbox)) mailboxes"

text \<open>Line 45: \<^verbatim>\<open>asyncio.gather\<close> gives the values returned, in the order of its arguments.\<close>

definition gather :: "fetch list \<Rightarrow> audit_settings option list" where
  "gather ts = map returned ts"

text \<open>
  Line 52: the results that are true. \<^verbatim>\<open>None\<close> is false; a dict with three keys is true.
\<close>

definition kept :: "audit_settings option list \<Rightarrow> audit_settings list" where
  "kept results = concat (map (\<lambda>result. case result of None \<Rightarrow> [] | Some r \<Rightarrow> [r]) results)"

definition main :: "graph_client \<Rightarrow> files \<Rightarrow> run" where
  "main client fs =
     (case open_reader (mailboxes_csv fs) of
        Inl e \<Rightarrow> aborted e fs
      | Inr reader \<Rightarrow>
          (case py_next reader of
             Inl e \<Rightarrow> aborted e fs
           | Inr (header, mailboxes) \<Rightarrow>
               (let ts = tasks client mailboxes;
                    results = gather ts
                in \<lparr>raised = None,
                    requests = map requested ts,
                    printed = mset (concat (map lines ts)),
                    files_after =
                      fs\<lparr>audit_settings_csv := Some (writeheader @ writerows (kept results))\<rparr>\<rparr>)))"

subsection \<open>Scenarios\<close>

text \<open>
  The end-to-end scenario: a header and the rows of alice and bob; the service knows the
  settings of alice, under her address and under the text of her row, and raises a 404
  error for every other path.
\<close>

definition scenario_files :: files where
  "scenario_files =
     \<lparr>mailboxes_csv = FileRows [[''Mailbox''], [''alice@x.com''], [''bob@x.com'']],
      audit_settings_csv = None\<rparr>"

definition not_found :: py_exception where
  "not_found = PyException ''HTTPError'' ''404 Not Found''"

definition alice_response :: response where
  "alice_response =
     \<lparr>status_code = 200,
      json = Inr (PyDict [(''auditEnabled'', PyBool True), (''auditLogAgeLimit'', PyStr ''90'')])\<rparr>"

definition scenario_client :: graph_client where
  "scenario_client path =
     (if path = ''/users/alice@x.com/mailboxSettings''
         \<or> path = ''/users/['alice@x.com']/mailboxSettings''
      then Inr alice_response else Inl not_found)"

definition scenario_expected :: string where
  "scenario_expected =
     ''Mailbox,AuditEnabled,AuditLogAgeLimit'' @ [CHR 0x0D, CHR 0x0A]
     @ ''alice@x.com,True,90'' @ [CHR 0x0D, CHR 0x0A]"

text \<open>
  A second service: it answers as the first on the two paths of the rows of alice and bob
  and returns an error response on every other path.
\<close>

definition other_client :: graph_client where
  "other_client path =
     (if path = ''/users/['alice@x.com']/mailboxSettings'' then Inr alice_response
      else if path = ''/users/['bob@x.com']/mailboxSettings'' then Inl not_found
      else Inr \<lparr>status_code = 500, json = Inl (PyException ''JSONDecodeError'' ''Expecting value'')\<rparr>)"

text \<open>A client that returns a 404 response with the error object of the service as body.\<close>

definition error_response :: response where
  "error_response =
     \<lparr>status_code = 404,
      json = Inr (PyDict [(''error'', PyDict [(''code'', PyStr ''ResourceNotFound'')])])\<rparr>"

definition error_response_client :: graph_client where
  "error_response_client path = Inr error_response"

text \<open>A client that returns a 200 response whose body is the JSON array \<^verbatim>\<open>[]\<close>.\<close>

definition array_response :: response where
  "array_response = \<lparr>status_code = 200, json = Inr (PyList [])\<rparr>"

definition array_client :: graph_client where
  "array_client path = Inr array_response"

section \<open>Properties\<close>

subsection \<open>Auxiliary facts\<close>

lemma writeheader_text:
  "writeheader = ''Mailbox,AuditEnabled,AuditLogAgeLimit'' @ [CHR 0x0D, CHR 0x0A]"
  by (simp add: writeheader_def writerow_def fieldnames_def write_field_def needs_quoting_def)

lemma main_rows:
  "mailboxes_csv fs = FileRows (header # rows) \<Longrightarrow>
   main client fs =
     \<lparr>raised = None,
      requests = map requested (tasks client rows),
      printed = mset (concat (map lines (tasks client rows))),
      files_after =
        fs\<lparr>audit_settings_csv := Some (writeheader @ writerows (kept (gather (tasks client rows))))\<rparr>\<rparr>"
  by (simp add: main_def Let_def)

lemma requested_fetch [simp]:
  "requested (get_mailbox_audit_settings client m) = request_path m"
  by (simp add: get_mailbox_audit_settings_def split: sum.split)

lemma returned_fetch:
  "returned (get_mailbox_audit_settings client m) =
     (case try_block client m of Inl e \<Rightarrow> None | Inr r \<Rightarrow> Some r)"
  by (simp add: get_mailbox_audit_settings_def split: sum.split)

lemma lines_fetch:
  "lines (get_mailbox_audit_settings client m) =
     (case try_block client m of Inl e \<Rightarrow> [error_line m e] | Inr r \<Rightarrow> [])"
  by (simp add: get_mailbox_audit_settings_def split: sum.split)

lemma try_block_Mailbox: "try_block client m = Inr r \<Longrightarrow> Mailbox r = m"
  by (auto simp: try_block_def split: sum.splits)

lemma try_block_client_raises:
  "client (request_path m) = Inl e \<Longrightarrow> try_block client m = Inl e"
  by (simp add: try_block_def)

lemma try_block_json_raises:
  "client (request_path m) = Inr result \<Longrightarrow> json result = Inl e \<Longrightarrow> try_block client m = Inl e"
  by (simp add: try_block_def)

lemma py_get_not_dict: "\<not> is_dict v \<Longrightarrow> py_get v key = Inl (AttributeError v ''get'')"
  by (cases v) simp_all

lemma try_block_not_dict:
  "client (request_path m) = Inr result \<Longrightarrow> json result = Inr settings \<Longrightarrow> \<not> is_dict settings \<Longrightarrow>
   try_block client m = Inl (AttributeError settings ''get'')"
  by (simp add: try_block_def py_get_not_dict)

lemma try_block_dict:
  "client (request_path m) = Inr result \<Longrightarrow> json result = Inr (PyDict kvs) \<Longrightarrow>
   try_block client m =
     Inr \<lparr>Mailbox = m,
          AuditEnabled = (case map_of kvs ''auditEnabled'' of None \<Rightarrow> PyNone | Some v \<Rightarrow> v),
          AuditLogAgeLimit = (case map_of kvs ''auditLogAgeLimit'' of None \<Rightarrow> PyNone | Some v \<Rightarrow> v)\<rparr>"
  by (simp add: try_block_def)

lemma kept_gather_Nil [simp]: "kept (gather (tasks client [])) = []"
  by (simp add: kept_def gather_def tasks_def)

lemma kept_gather_Cons:
  "kept (gather (tasks client (row # rows))) =
     (case try_block client (row_value row) of Inl e \<Rightarrow> [] | Inr r \<Rightarrow> [r])
     @ kept (gather (tasks client rows))"
  by (simp add: kept_def gather_def tasks_def returned_fetch split: sum.split)

lemma Mailbox_kept:
  "map Mailbox (kept (gather (tasks client rows))) =
     filter (\<lambda>m. returned (get_mailbox_audit_settings client m) \<noteq> None) (map row_value rows)"
proof (induction rows)
  case Nil
  show ?case by simp
next
  case (Cons row rows)
  show ?case
  proof (cases "try_block client (row_value row)")
    case (Inl e)
    with Cons show ?thesis by (simp add: kept_gather_Cons returned_fetch)
  next
    case (Inr r)
    with Cons show ?thesis by (simp add: kept_gather_Cons returned_fetch try_block_Mailbox)
  qed
qed

lemma set_kept:
  "set (kept (gather (tasks client rows))) =
     {r. \<exists>row \<in> set rows. try_block client (row_value row) = Inr r}"
proof (induction rows)
  case Nil
  show ?case by simp
next
  case (Cons row rows)
  then show ?case
    by (cases "try_block client (row_value row)") (auto simp: kept_gather_Cons)
qed

lemma filter_kept:
  assumes "try_block client m = Inr r"
  shows "filter (\<lambda>x. Mailbox x = m) (kept (gather (tasks client rows)))
           = replicate (count_list (map row_value rows) m) r"
proof (induction rows)
  case Nil
  show ?case by simp
next
  case (Cons row rows)
  show ?case
  proof (cases "row_value row = m")
    case True
    with assms Cons show ?thesis
      by (simp add: kept_gather_Cons try_block_Mailbox)
  next
    case False
    with Cons show ?thesis
      by (cases "try_block client (row_value row)")
         (auto simp: kept_gather_Cons dest: try_block_Mailbox)
  qed
qed

lemma mailboxes_csv_main [simp]: "mailboxes_csv (files_after (main client fs)) = mailboxes_csv fs"
  by (simp add: main_def aborted_def Let_def split: sum.split prod.split)

lemma tasks_cong:
  "\<forall>row \<in> set rows. client2 (request_path (row_value row)) = client1 (request_path (row_value row))
   \<Longrightarrow> tasks client2 rows = tasks client1 rows"
  by (simp add: tasks_def get_mailbox_audit_settings_def try_block_def)

lemma in_kept:
  "row \<in> set rows \<Longrightarrow> returned (get_mailbox_audit_settings client (row_value row)) = Some r \<Longrightarrow>
   r \<in> set (kept (gather (tasks client rows)))"
  by (auto simp: set_kept returned_fetch split: sum.splits)

lemma not_in_kept:
  assumes "try_block client m = Inl e"
  shows "\<forall>r \<in> set (kept (gather (tasks client rows))). Mailbox r \<noteq> m"
proof
  fix r
  assume "r \<in> set (kept (gather (tasks client rows)))"
  then obtain row where "try_block client (row_value row) = Inr r"
    by (auto simp: set_kept)
  then have "Mailbox r = row_value row" and "try_block client (Mailbox r) = Inr r"
    by (simp_all add: try_block_Mailbox)
  with assms show "Mailbox r \<noteq> m"
    by auto
qed

lemmas text_defs =
  request_path_def row_value_def py_repr_str_def repr_quote_def repr_char_def Let_def
  error_line_def

lemma scenario_input:
  "mailboxes_csv scenario_files = FileRows ([''Mailbox''] # [[''alice@x.com''], [''bob@x.com'']])"
  by (simp add: scenario_files_def)

lemma fetch_alice:
  "get_mailbox_audit_settings scenario_client (row_value [''alice@x.com''])
     = \<lparr>requested = ''/users/['alice@x.com']/mailboxSettings'', lines = [],
        returned = Some \<lparr>Mailbox = PyList [PyStr ''alice@x.com''], AuditEnabled = PyBool True,
                         AuditLogAgeLimit = PyStr ''90''\<rparr>\<rparr>"
  by (simp add: get_mailbox_audit_settings_def try_block_def scenario_client_def
        alice_response_def text_defs)

lemma fetch_bob:
  "get_mailbox_audit_settings scenario_client (row_value [''bob@x.com''])
     = \<lparr>requested = ''/users/['bob@x.com']/mailboxSettings'',
        lines = [''Error getting settings for ['bob@x.com']: 404 Not Found''],
        returned = None\<rparr>"
  by (simp add: get_mailbox_audit_settings_def try_block_def scenario_client_def
        not_found_def text_defs)

lemma scenario_kept:
  "kept (gather (tasks scenario_client [[''alice@x.com''], [''bob@x.com'']]))
     = [\<lparr>Mailbox = PyList [PyStr ''alice@x.com''], AuditEnabled = PyBool True,
         AuditLogAgeLimit = PyStr ''90''\<rparr>]"
  by (simp add: kept_def gather_def tasks_def fetch_alice fetch_bob)

lemma alice_row_text:
  "writerow [PyList [PyStr ''alice@x.com''], PyBool True, PyStr ''90'']
     = ''['alice@x.com'],True,90'' @ [CHR 0x0D, CHR 0x0A]"
  by (simp add: writerow_def write_field_def needs_quoting_def text_defs)

lemma fetch_array:
  "get_mailbox_audit_settings array_client (row_value [''alice@x.com''])
     = \<lparr>requested = ''/users/['alice@x.com']/mailboxSettings'',
        lines = [''Error getting settings for ['alice@x.com']: 'list' object has no attribute 'get''
                 @ [CHR 0x27]],
        returned = None\<rparr>"
  by (simp add: get_mailbox_audit_settings_def try_block_def array_client_def
        array_response_def AttributeError_def text_defs)

lemma fetch_array_bob:
  "returned (get_mailbox_audit_settings array_client (row_value [''bob@x.com''])) = None"
  by (simp add: get_mailbox_audit_settings_def try_block_def array_client_def
        array_response_def)

lemma row_text_first_char:
  "Mailbox r = row_value row \<Longrightarrow>
   writerow (dict_to_list r) \<noteq> [] \<and> hd (writerow (dict_to_list r)) \<noteq> CHR ''a''"
  by (simp add: writerow_def dict_to_list_def write_field_def row_value_def)

lemma rows_text_not_expected:
  assumes "\<forall>r \<in> set rs. \<exists>row. Mailbox r = row_value row"
  shows "writerows rs \<noteq> ''alice@x.com,True,90'' @ [CHR 0x0D, CHR 0x0A]"
proof (cases rs)
  case Nil
  then show ?thesis by (simp add: writerows_def)
next
  case (Cons r rs')
  with assms obtain row where "Mailbox r = row_value row"
    by auto
  then have "writerow (dict_to_list r) \<noteq> [] \<and> hd (writerow (dict_to_list r)) \<noteq> CHR ''a''"
    by (rule row_text_first_char)
  with Cons show ?thesis
    by (cases "writerow (dict_to_list r)") (auto simp: writerows_def)
qed

lemma no_client_gives_expected:
  "audit_settings_csv (files_after (main client scenario_files)) \<noteq> Some scenario_expected"
proof -
  have "\<forall>r \<in> set (kept (gather (tasks client [[''alice@x.com''], [''bob@x.com'']]))).
          \<exists>row. Mailbox r = row_value row"
    by (auto simp: set_kept dest: try_block_Mailbox)
  then show ?thesis
    using main_rows [OF scenario_input, of client] rows_text_not_expected
    by (simp add: writeheader_text scenario_expected_def)
qed

subsection \<open>Claims\<close>

text \<open>
  Claim C1, as the code has it. An exception raised inside the \<^verbatim>\<open>try\<close> of
  \<^verbatim>\<open>get_mailbox_audit_settings\<close> is caught there: when \<^verbatim>\<open>client.get\<close> raises (a network
  error, an authentication failure, a status that the client reports by raising), when
  \<^verbatim>\<open>json()\<close> raises, or when the decoded body is not a dict, the function prints one line
  with the mailbox and the exception and returns \<^verbatim>\<open>None\<close>. With an input file that has
  a header row, the run then ends without an exception, the output file is written, every
  row whose fetch returned a record has that record among the rows written, and no row
  written carries the mailbox that failed.
\<close>

theorem fetch_exception_contained:
  assumes "client (request_path m) = Inl e
           \<or> (\<exists>result. client (request_path m) = Inr result
                 \<and> (json result = Inl e
                      \<or> (\<exists>settings. json result = Inr settings \<and> \<not> is_dict settings
                            \<and> e = AttributeError settings ''get'')))"
    and "mailboxes_csv fs = FileRows (header # rows)"
  shows "get_mailbox_audit_settings client m
           = \<lparr>requested = request_path m, lines = [error_line m e], returned = None\<rparr>
         \<and> raised (main client fs) = None
         \<and> audit_settings_csv (files_after (main client fs))
           = Some (writeheader @ writerows (kept (gather (tasks client rows))))
         \<and> (\<forall>row \<in> set rows. \<forall>r.
               returned (get_mailbox_audit_settings client (row_value row)) = Some r
               \<longrightarrow> r \<in> set (kept (gather (tasks client rows))))
         \<and> (\<forall>r \<in> set (kept (gather (tasks client rows))). Mailbox r \<noteq> m)"
proof -
  from assms(1) have failed: "try_block client m = Inl e"
    by (auto simp: try_block_client_raises try_block_json_raises try_block_not_dict)
  then have "get_mailbox_audit_settings client m
               = \<lparr>requested = request_path m, lines = [error_line m e], returned = None\<rparr>"
    by (simp add: get_mailbox_audit_settings_def)
  moreover have "raised (main client fs) = None"
    and "audit_settings_csv (files_after (main client fs))
           = Some (writeheader @ writerows (kept (gather (tasks client rows))))"
    using main_rows [OF assms(2), of client] by simp_all
  ultimately show ?thesis
    using not_in_kept [OF failed, of rows] in_kept [of _ rows client] by blast
qed

theorem fetch_exception_contained_witness:
  "scenario_client (request_path (row_value [''bob@x.com''])) = Inl not_found
   \<and> mailboxes_csv scenario_files = FileRows ([''Mailbox''] # [[''alice@x.com''], [''bob@x.com'']])
   \<and> get_mailbox_audit_settings scenario_client (row_value [''bob@x.com''])
     = \<lparr>requested = request_path (row_value [''bob@x.com'']),
        lines = [''Error getting settings for ['bob@x.com']: 404 Not Found''],
        returned = None\<rparr>
   \<and> raised (main scenario_client scenario_files) = None
   \<and> audit_settings_csv (files_after (main scenario_client scenario_files))
     = Some (''Mailbox,AuditEnabled,AuditLogAgeLimit'' @ [CHR 0x0D, CHR 0x0A]
             @ ''['alice@x.com'],True,90'' @ [CHR 0x0D, CHR 0x0A])"
proof -
  have raises: "scenario_client (request_path (row_value [''bob@x.com''])) = Inl not_found"
    by (simp add: scenario_client_def text_defs)
  note t = fetch_exception_contained
             [of scenario_client "row_value [''bob@x.com'']" not_found scenario_files,
              OF disjI1 [OF raises] scenario_input]
  have line: "error_line (row_value [''bob@x.com'']) not_found
                = ''Error getting settings for ['bob@x.com']: 404 Not Found''"
    by (simp add: not_found_def text_defs)
  from t have "audit_settings_csv (files_after (main scenario_client scenario_files))
      = Some (writeheader
              @ writerows (kept (gather (tasks scenario_client [[''alice@x.com''], [''bob@x.com'']]))))"
    by blast
  then have out: "audit_settings_csv (files_after (main scenario_client scenario_files))
      = Some (''Mailbox,AuditEnabled,AuditLogAgeLimit'' @ [CHR 0x0D, CHR 0x0A]
              @ ''['alice@x.com'],True,90'' @ [CHR 0x0D, CHR 0x0A])"
    by (simp add: scenario_kept writerows_def dict_to_list_def alice_row_text writeheader_text)
  from t line have "get_mailbox_audit_settings scenario_client (row_value [''bob@x.com''])
     = \<lparr>requested = request_path (row_value [''bob@x.com'']),
        lines = [''Error getting settings for ['bob@x.com']: 404 Not Found''],
        returned = None\<rparr>"
    by simp
  moreover from t have "raised (main scenario_client scenario_files) = None"
    by blast
  ultimately show ?thesis
    using raises scenario_input out by blast
qed

text \<open>
  Claim C1 as stated includes a response with a status outside 2xx. The code never reads
  the status: when the client returns a 404 response whose body decodes to a dict, nothing
  is printed and a record is returned, with \<^verbatim>\<open>None\<close> in both settings.
\<close>

theorem error_response_counterexample:
  "error_response_client (request_path (row_value [''bob@x.com''])) = Inr error_response
   \<and> status_code error_response = 404
   \<and> get_mailbox_audit_settings error_response_client (row_value [''bob@x.com''])
     = \<lparr>requested = ''/users/['bob@x.com']/mailboxSettings'', lines = [],
        returned = Some \<lparr>Mailbox = PyList [PyStr ''bob@x.com''], AuditEnabled = PyNone,
                         AuditLogAgeLimit = PyNone\<rparr>\<rparr>"
  by (simp add: get_mailbox_audit_settings_def try_block_def error_response_client_def
        error_response_def text_defs)

text \<open>
  Claim C2. When the input file holds a header row followed by \<open>N\<close> rows, there is
  one task per row after the first, \<open>N\<close> in all, each asking the client for the path
  of its own row, in the order of the rows; the first row gives no task.
\<close>

theorem one_task_per_data_row:
  assumes "mailboxes_csv fs = FileRows (header # rows)"
  shows "requests (main client fs) = map (\<lambda>row. request_path (row_value row)) rows
         \<and> length (requests (main client fs)) = length rows
         \<and> length (tasks client rows) = length rows"
  using main_rows [OF assms, of client]
  by (simp add: tasks_def comp_def)

theorem one_task_per_data_row_witness:
  "mailboxes_csv scenario_files = FileRows [[''Mailbox''], [''alice@x.com''], [''bob@x.com'']]
   \<and> requests (main scenario_client scenario_files)
       = [''/users/['alice@x.com']/mailboxSettings'', ''/users/['bob@x.com']/mailboxSettings'']
   \<and> length (requests (main scenario_client scenario_files)) = 2"
  using one_task_per_data_row
          [of scenario_files "[''Mailbox'']" "[[''alice@x.com''], [''bob@x.com'']]" scenario_client]
  by (simp add: scenario_files_def request_path_def row_value_def py_repr_str_def
        repr_quote_def repr_char_def Let_def)

text \<open>
  Claim C3, as the code has it. When the client returns a response for a mailbox and its
  body decodes to a dict, the fetch returns the record of the mailbox and the two settings,
  a key absent from the dict giving \<^verbatim>\<open>None\<close>; the output file is the header line followed
  by one line per record kept; and the records kept for that mailbox are that record, once
  for each row of the input that holds the mailbox.
\<close>

theorem object_body_written_once_per_row:
  assumes "client (request_path m) = Inr result"
    and "json result = Inr (PyDict kvs)"
    and "mailboxes_csv fs = FileRows (header # rows)"
  shows "returned (get_mailbox_audit_settings client m)
           = Some \<lparr>Mailbox = m,
                   AuditEnabled =
                     (case map_of kvs ''auditEnabled'' of None \<Rightarrow> PyNone | Some v \<Rightarrow> v),
                   AuditLogAgeLimit =
                     (case map_of kvs ''auditLogAgeLimit'' of None \<Rightarrow> PyNone | Some v \<Rightarrow> v)\<rparr>
         \<and> audit_settings_csv (files_after (main client fs))
           = Some (writeheader
                   @ concat (map (\<lambda>r. writerow [Mailbox r, AuditEnabled r, AuditLogAgeLimit r])
                                 (kept (gather (tasks client rows)))))
         \<and> filter (\<lambda>r. Mailbox r = m) (kept (gather (tasks client rows)))
           = replicate (count_list (map row_value rows) m)
               \<lparr>Mailbox = m,
                AuditEnabled =
                  (case map_of kvs ''auditEnabled'' of None \<Rightarrow> PyNone | Some v \<Rightarrow> v),
                AuditLogAgeLimit =
                  (case map_of kvs ''auditLogAgeLimit'' of None \<Rightarrow> PyNone | Some v \<Rightarrow> v)\<rparr>"
proof -
  note ok = try_block_dict [of client m result kvs, OF assms(1,2)]
  have "audit_settings_csv (files_after (main client fs))
      = Some (writeheader
              @ concat (map (\<lambda>r. writerow [Mailbox r, AuditEnabled r, AuditLogAgeLimit r])
                            (kept (gather (tasks client rows)))))"
    using main_rows [OF assms(3), of client] by (simp add: writerows_def dict_to_list_def comp_def)
  then show ?thesis
    using filter_kept [OF ok, of rows] by (simp add: returned_fetch ok)
qed

theorem object_body_written_once_per_row_witness:
  "scenario_client (request_path (row_value [''alice@x.com''])) = Inr alice_response
   \<and> json alice_response
     = Inr (PyDict [(''auditEnabled'', PyBool True), (''auditLogAgeLimit'', PyStr ''90'')])
   \<and> mailboxes_csv scenario_files = FileRows ([''Mailbox''] # [[''alice@x.com''], [''bob@x.com'']])
   \<and> returned (get_mailbox_audit_settings scenario_client (row_value [''alice@x.com'']))
     = Some \<lparr>Mailbox = row_value [''alice@x.com''], AuditEnabled = PyBool True,
             AuditLogAgeLimit = PyStr ''90''\<rparr>
   \<and> filter (\<lambda>r. Mailbox r = row_value [''alice@x.com''])
         (kept (gather (tasks scenario_client [[''alice@x.com''], [''bob@x.com'']])))
     = [\<lparr>Mailbox = row_value [''alice@x.com''], AuditEnabled = PyBool True,
         AuditLogAgeLimit = PyStr ''90''\<rparr>]"
proof -
  have answer: "scenario_client (request_path (row_value [''alice@x.com''])) = Inr alice_response"
    by (simp add: scenario_client_def text_defs)
  have body: "json alice_response
     = Inr (PyDict [(''auditEnabled'', PyBool True), (''auditLogAgeLimit'', PyStr ''90'')])"
    by (simp add: alice_response_def)
  note t = object_body_written_once_per_row
             [of scenario_client "row_value [''alice@x.com'']" alice_response _ scenario_files,
              OF answer body scenario_input]
  from t have r: "returned (get_mailbox_audit_settings scenario_client (row_value [''alice@x.com'']))
     = Some \<lparr>Mailbox = row_value [''alice@x.com''], AuditEnabled = PyBool True,
             AuditLogAgeLimit = PyStr ''90''\<rparr>"
    by simp
  have "count_list (map row_value [[''alice@x.com''], [''bob@x.com'']]) (row_value [''alice@x.com''])
          = Suc 0"
    by (simp add: row_value_def)
  with t r have "filter (\<lambda>r. Mailbox r = row_value [''alice@x.com''])
         (kept (gather (tasks scenario_client [[''alice@x.com''], [''bob@x.com'']])))
     = [\<lparr>Mailbox = row_value [''alice@x.com''], AuditEnabled = PyBool True,
         AuditLogAgeLimit = PyStr ''90''\<rparr>]"
    by simp
  with answer body scenario_input r show ?thesis
    by blast
qed

text \<open>
  Claim C3 as stated takes every decodable body for a success. A 200 response whose body
  is the JSON array \<^verbatim>\<open>[]\<close> decodes, and yet the fetch returns \<^verbatim>\<open>None\<close> and the output
  file has the header line only.
\<close>

theorem array_body_counterexample:
  "array_client (request_path (row_value [''alice@x.com''])) = Inr array_response
   \<and> status_code array_response = 200
   \<and> json array_response = Inr (PyList [])
   \<and> returned (get_mailbox_audit_settings array_client (row_value [''alice@x.com''])) = None
   \<and> audit_settings_csv (files_after (main array_client scenario_files))
     = Some (''Mailbox,AuditEnabled,AuditLogAgeLimit'' @ [CHR 0x0D, CHR 0x0A])"
  using main_rows [OF scenario_input, of array_client]
  by (simp add: array_client_def array_response_def fetch_array fetch_array_bob
        kept_def gather_def tasks_def writerows_def writeheader_text)

text \<open>
  Claim C4. In the scenario the script passes the whole row to the fetch: it asks the
  client for \<^verbatim>\<open>/users/['alice@x.com']/mailboxSettings\<close> and writes the text of the row in
  the Mailbox column. With a service that answers that path for alice, the data row is
  \<^verbatim>\<open>['alice@x.com'],True,90\<close>, not \<^verbatim>\<open>alice@x.com,True,90\<close>; and whatever the client
  answers, the output file is never the expected one.
\<close>

theorem scenario_output_is_not_the_expected_file:
  "requests (main scenario_client scenario_files)
     = [''/users/['alice@x.com']/mailboxSettings'', ''/users/['bob@x.com']/mailboxSettings'']
   \<and> audit_settings_csv (files_after (main scenario_client scenario_files))
     = Some (''Mailbox,AuditEnabled,AuditLogAgeLimit'' @ [CHR 0x0D, CHR 0x0A]
             @ ''['alice@x.com'],True,90'' @ [CHR 0x0D, CHR 0x0A])
   \<and> audit_settings_csv (files_after (main scenario_client scenario_files))
     \<noteq> Some scenario_expected
   \<and> audit_settings_csv (files_after (main client scenario_files)) \<noteq> Some scenario_expected"
proof -
  note run = main_rows [OF scenario_input, of scenario_client]
  have asked: "requests (main scenario_client scenario_files)
     = [''/users/['alice@x.com']/mailboxSettings'', ''/users/['bob@x.com']/mailboxSettings'']"
    using run by (simp add: tasks_def text_defs)
  have out: "audit_settings_csv (files_after (main scenario_client scenario_files))
     = Some (''Mailbox,AuditEnabled,AuditLogAgeLimit'' @ [CHR 0x0D, CHR 0x0A]
             @ ''['alice@x.com'],True,90'' @ [CHR 0x0D, CHR 0x0A])"
    using run
    by (simp add: scenario_kept writerows_def dict_to_list_def alice_row_text writeheader_text)
  show ?thesis
    using asked out no_client_gives_expected [of client] by (simp add: scenario_expected_def)
qed

text \<open>
  Claim C5. The results of \<^verbatim>\<open>gather\<close> are the values returned by the tasks in the order
  of the rows; the output file is the header line followed by one line per record kept, in
  that order; and the mailboxes of the records kept are the rows of the input whose fetch
  did not return \<^verbatim>\<open>None\<close>, in the order of the input.
\<close>

theorem output_rows_in_input_order:
  assumes "mailboxes_csv fs = FileRows (header # rows)"
  shows "gather (tasks client rows)
           = map (\<lambda>row. returned (get_mailbox_audit_settings client (row_value row))) rows
         \<and> audit_settings_csv (files_after (main client fs))
           = Some (writeheader
                   @ concat (map (\<lambda>r. writerow [Mailbox r, AuditEnabled r, AuditLogAgeLimit r])
                                 (kept (gather (tasks client rows)))))
         \<and> map Mailbox (kept (gather (tasks client rows)))
           = filter (\<lambda>m. returned (get_mailbox_audit_settings client m) \<noteq> None)
                    (map row_value rows)"
proof -
  have "gather (tasks client rows)
          = map (\<lambda>row. returned (get_mailbox_audit_settings client (row_value row))) rows"
    by (simp add: gather_def tasks_def)
  moreover have "audit_settings_csv (files_after (main client fs))
      = Some (writeheader
              @ concat (map (\<lambda>r. writerow [Mailbox r, AuditEnabled r, AuditLogAgeLimit r])
                            (kept (gather (tasks client rows)))))"
    using main_rows [OF assms, of client] by (simp add: writerows_def dict_to_list_def comp_def)
  ultimately show ?thesis
    using Mailbox_kept [of client rows] by simp
qed

theorem output_rows_in_input_order_witness:
  "mailboxes_csv scenario_files = FileRows ([''Mailbox''] # [[''alice@x.com''], [''bob@x.com'']])
   \<and> map Mailbox (kept (gather (tasks scenario_client [[''alice@x.com''], [''bob@x.com'']])))
     = filter (\<lambda>m. returned (get_mailbox_audit_settings scenario_client m) \<noteq> None)
              (map row_value [[''alice@x.com''], [''bob@x.com'']])
   \<and> filter (\<lambda>m. returned (get_mailbox_audit_settings scenario_client m) \<noteq> None)
              (map row_value [[''alice@x.com''], [''bob@x.com'']])
     = [row_value [''alice@x.com'']]
   \<and> audit_settings_csv (files_after (main scenario_client scenario_files))
     = Some (''Mailbox,AuditEnabled,AuditLogAgeLimit'' @ [CHR 0x0D, CHR 0x0A]
             @ ''['alice@x.com'],True,90'' @ [CHR 0x0D, CHR 0x0A])"
proof -
  note t = output_rows_in_input_order [OF scenario_input, of scenario_client]
  from t have "audit_settings_csv (files_after (main scenario_client scenario_files))
      = Some (writeheader
              @ concat (map (\<lambda>r. writerow [Mailbox r, AuditEnabled r, AuditLogAgeLimit r])
                  (kept (gather (tasks scenario_client [[''alice@x.com''], [''bob@x.com'']])))))"
    by blast
  then have out: "audit_settings_csv (files_after (main scenario_client scenario_files))
      = Some (''Mailbox,AuditEnabled,AuditLogAgeLimit'' @ [CHR 0x0D, CHR 0x0A]
              @ ''['alice@x.com'],True,90'' @ [CHR 0x0D, CHR 0x0A])"
    by (simp add: scenario_kept alice_row_text writeheader_text)
  from t have order: "map Mailbox (kept (gather (tasks scenario_client [[''alice@x.com''], [''bob@x.com'']])))
     = filter (\<lambda>m. returned (get_mailbox_audit_settings scenario_client m) \<noteq> None)
              (map row_value [[''alice@x.com''], [''bob@x.com'']])"
    by blast
  have "filter (\<lambda>m. returned (get_mailbox_audit_settings scenario_client m) \<noteq> None)
              (map row_value [[''alice@x.com''], [''bob@x.com'']])
     = [row_value [''alice@x.com'']]"
    by (simp add: fetch_alice fetch_bob)
  with scenario_input out order show ?thesis
    by blast
qed

text \<open>
  Claim C6. When the input file does not exist, the run ends with \<^verbatim>\<open>FileNotFoundError\<close>
  raised by \<^verbatim>\<open>open\<close>: no request has been made of the client, nothing has been printed
  and the files are as they were, the output file included.
\<close>

theorem missing_input_aborts_before_requests:
  assumes "mailboxes_csv fs = NoSuchFile"
  shows "main client fs =
           \<lparr>raised = Some (FileNotFoundError input_csv), requests = [], printed = {#},
            files_after = fs\<rparr>"
  using assms
  by (simp add: main_def aborted_def coroutine_raise_def FileNotFoundError_def)

theorem missing_input_aborts_before_requests_witness:
  "mailboxes_csv \<lparr>mailboxes_csv = NoSuchFile, audit_settings_csv = Some ''old''\<rparr> = NoSuchFile
   \<and> raised (main scenario_client \<lparr>mailboxes_csv = NoSuchFile, audit_settings_csv = Some ''old''\<rparr>)
       = Some (PyException ''FileNotFoundError''
                 (''[Errno 2] No such file or directory: '' @ [CHR 0x27] @ ''mailboxes.csv'' @ [CHR 0x27]))
   \<and> requests (main scenario_client \<lparr>mailboxes_csv = NoSuchFile, audit_settings_csv = Some ''old''\<rparr>) = []
   \<and> audit_settings_csv
         (files_after (main scenario_client \<lparr>mailboxes_csv = NoSuchFile, audit_settings_csv = Some ''old''\<rparr>))
       = Some ''old''"
  using missing_input_aborts_before_requests
          [of "\<lparr>mailboxes_csv = NoSuchFile, audit_settings_csv = Some ''old''\<rparr>" scenario_client]
  by (simp add: FileNotFoundError_def input_csv_def py_repr_str_def repr_quote_def repr_char_def Let_def)

text \<open>
  Claim C7. When the input file holds a header row and nothing else, the run completes,
  makes no request, and the output file is the header line
  \<^verbatim>\<open>Mailbox,AuditEnabled,AuditLogAgeLimit\<close> alone.
\<close>

theorem header_only_input_gives_header_only_output:
  assumes "mailboxes_csv fs = FileRows [header]"
  shows "main client fs =
           \<lparr>raised = None, requests = [], printed = {#},
            files_after =
              fs\<lparr>audit_settings_csv :=
                    Some (''Mailbox,AuditEnabled,AuditLogAgeLimit'' @ [CHR 0x0D, CHR 0x0A])\<rparr>\<rparr>"
  using main_rows [OF assms, of client]
  by (simp add: writeheader_text writerows_def tasks_def gather_def kept_def)

theorem header_only_input_gives_header_only_output_witness:
  "mailboxes_csv \<lparr>mailboxes_csv = FileRows [[''Mailbox'']], audit_settings_csv = None\<rparr>
     = FileRows [[''Mailbox'']]
   \<and> main scenario_client \<lparr>mailboxes_csv = FileRows [[''Mailbox'']], audit_settings_csv = None\<rparr>
     = \<lparr>raised = None, requests = [], printed = {#},
        files_after =
          \<lparr>mailboxes_csv = FileRows [[''Mailbox'']],
           audit_settings_csv =
             Some (''Mailbox,AuditEnabled,AuditLogAgeLimit'' @ [CHR 0x0D, CHR 0x0A])\<rparr>\<rparr>"
  using header_only_input_gives_header_only_output
          [of "\<lparr>mailboxes_csv = FileRows [[''Mailbox'']], audit_settings_csv = None\<rparr>"
              "[''Mailbox'']" scenario_client]
  by simp

text \<open>
  Claim C8. The run is a function of the rows of the input and of the answers of the
  client to the paths asked. Two runs on the same input, with clients that agree on those
  paths, raise the same exception or none, ask the same paths and print the same lines;
  when the run completes they leave the same output file, whatever it held before; and a
  second run started from the files the first one left gives the same run and the same
  files again.
\<close>

theorem output_determined_by_rows_and_responses:
  assumes "mailboxes_csv fs2 = mailboxes_csv fs1"
    and "\<forall>path \<in> set (requests (main client1 fs1)). client2 path = client1 path"
  shows "raised (main client2 fs2) = raised (main client1 fs1)
         \<and> requests (main client2 fs2) = requests (main client1 fs1)
         \<and> printed (main client2 fs2) = printed (main client1 fs1)
         \<and> (raised (main client1 fs1) = None \<longrightarrow>
              audit_settings_csv (files_after (main client2 fs2))
                = audit_settings_csv (files_after (main client1 fs1)))
         \<and> main client2 (files_after (main client1 fs1)) = main client1 fs1"
proof (cases "mailboxes_csv fs1")
  case NoSuchFile
  with assms(1) show ?thesis
    by (simp add: main_def aborted_def)
next
  case (FileRows all_rows)
  show ?thesis
  proof (cases all_rows)
    case Nil
    with FileRows assms(1) show ?thesis
      by (simp add: main_def aborted_def)
  next
    case (Cons header rows)
    with FileRows have in1: "mailboxes_csv fs1 = FileRows (header # rows)"
      by simp
    with assms(1) have in2: "mailboxes_csv fs2 = FileRows (header # rows)"
      by simp
    have "requests (main client1 fs1) = map (\<lambda>row. request_path (row_value row)) rows"
      using main_rows [OF in1, of client1] by (simp add: tasks_def comp_def)
    with assms(2) have same: "tasks client2 rows = tasks client1 rows"
      by (intro tasks_cong) simp
    have in3: "mailboxes_csv (files_after (main client1 fs1)) = FileRows (header # rows)"
      using in1 by simp
    show ?thesis
      using main_rows [OF in1, of client1] main_rows [OF in2, of client2]
        main_rows [OF in3, of client2] same
      by simp
  qed
qed

theorem output_determined_by_rows_and_responses_witness:
  "mailboxes_csv (scenario_files\<lparr>audit_settings_csv := Some ''old''\<rparr>) = mailboxes_csv scenario_files
   \<and> list_all (\<lambda>path. other_client path = scenario_client path)
         (requests (main scenario_client scenario_files))
   \<and> other_client ''/users/alice@x.com/mailboxSettings''
       \<noteq> scenario_client ''/users/alice@x.com/mailboxSettings''
   \<and> raised (main scenario_client scenario_files) = None
   \<and> audit_settings_csv
         (files_after (main other_client (scenario_files\<lparr>audit_settings_csv := Some ''old''\<rparr>)))
     = audit_settings_csv (files_after (main scenario_client scenario_files))
   \<and> main other_client (files_after (main scenario_client scenario_files))
     = main scenario_client scenario_files"
proof -
  note run = main_rows [OF scenario_input, of scenario_client]
  have asked: "requests (main scenario_client scenario_files)
     = [''/users/['alice@x.com']/mailboxSettings'', ''/users/['bob@x.com']/mailboxSettings'']"
    using run by (simp add: tasks_def text_defs)
  have agree: "\<forall>path \<in> set (requests (main scenario_client scenario_files)).
                 other_client path = scenario_client path"
    by (simp add: asked other_client_def scenario_client_def)
  have differ: "other_client ''/users/alice@x.com/mailboxSettings''
                  \<noteq> scenario_client ''/users/alice@x.com/mailboxSettings''"
    by (simp add: other_client_def scenario_client_def alice_response_def)
  have same_input:
    "mailboxes_csv (scenario_files\<lparr>audit_settings_csv := Some ''old''\<rparr>) = mailboxes_csv scenario_files"
    by simp
  have completes: "raised (main scenario_client scenario_files) = None"
    using run by simp
  note t = output_determined_by_rows_and_responses [OF same_input agree]
  from t completes have "audit_settings_csv
         (files_after (main other_client (scenario_files\<lparr>audit_settings_csv := Some ''old''\<rparr>)))
     = audit_settings_csv (files_after (main scenario_client scenario_files))"
    by blast
  moreover from t have "main other_client (files_after (main scenario_client scenario_files))
     = main scenario_client scenario_files"
    by blast
  moreover from agree have "list_all (\<lambda>path. other_client path = scenario_client path)
         (requests (main scenario_client scenario_files))"
    by (simp add: list_all_iff)
  ultimately show ?thesis
    using same_input differ completes by blast
qed

text \<open>
  Claim C9. When the input file exists and has no row at all, \<^verbatim>\<open>next(reader)\<close> raises
  \<^verbatim>\<open>StopIteration\<close>; the run ends with an exception that nothing catches (the
  \<^verbatim>\<open>RuntimeError\<close> a coroutine turns it into), no request is made and the output file is
  not written: the files are as they were.
\<close>

theorem empty_input_aborts_before_writing:
  assumes "mailboxes_csv fs = FileRows []"
  shows "py_next [] = Inl (PyException ''StopIteration'' [])
         \<and> main client fs =
           \<lparr>raised = Some (PyException ''RuntimeError'' ''coroutine raised StopIteration''),
            requests = [], printed = {#}, files_after = fs\<rparr>"
  using assms
  by (simp add: main_def aborted_def coroutine_raise_def)

theorem empty_input_aborts_before_writing_witness:
  "mailboxes_csv \<lparr>mailboxes_csv = FileRows [], audit_settings_csv = None\<rparr> = FileRows []
   \<and> raised (main scenario_client \<lparr>mailboxes_csv = FileRows [], audit_settings_csv = None\<rparr>)
       = Some (PyException ''RuntimeError'' ''coroutine raised StopIteration'')
   \<and> audit_settings_csv
         (files_after (main scenario_client \<lparr>mailboxes_csv = FileRows [], audit_settings_csv = None\<rparr>))
       = None"
  using empty_input_aborts_before_writing
          [of "\<lparr>mailboxes_csv = FileRows [], audit_settings_csv = None\<rparr>" scenario_client]
  by simp

text \<open>
  Claim C10. When the client returns a response whose body decodes to a value that is not
  a dict, \<^verbatim>\<open>settings.get\<close> raises \<^verbatim>\<open>AttributeError\<close> inside the \<^verbatim>\<open>try\<close>; the exception
  is caught, one line is printed, \<^verbatim>\<open>None\<close> is returned, and no row written to the output
  file carries that mailbox. The status of the response plays no part.
\<close>

theorem non_object_body_is_failure:
  assumes "client (request_path m) = Inr result"
    and "json result = Inr settings"
    and "\<not> is_dict settings"
    and "mailboxes_csv fs = FileRows (header # rows)"
  shows "py_get settings ''auditEnabled'' = Inl (AttributeError settings ''get'')
         \<and> get_mailbox_audit_settings client m
           = \<lparr>requested = request_path m,
              lines = [error_line m (AttributeError settings ''get'')],
              returned = None\<rparr>
         \<and> audit_settings_csv (files_after (main client fs))
           = Some (writeheader @ writerows (kept (gather (tasks client rows))))
         \<and> (\<forall>r \<in> set (kept (gather (tasks client rows))). Mailbox r \<noteq> m)"
proof -
  have failed: "try_block client m = Inl (AttributeError settings ''get'')"
    using assms(1-3) by (rule try_block_not_dict)
  have "\<forall>r \<in> set (kept (gather (tasks client rows))). Mailbox r \<noteq> m"
  proof
    fix r
    assume "r \<in> set (kept (gather (tasks client rows)))"
    then obtain row where "try_block client (row_value row) = Inr r"
      by (auto simp: set_kept)
    then have "Mailbox r = row_value row" and "try_block client (Mailbox r) = Inr r"
      by (simp_all add: try_block_Mailbox)
    with failed show "Mailbox r \<noteq> m"
      by auto
  qed
  then show ?thesis
    using failed main_rows [OF assms(4), of client] py_get_not_dict [OF assms(3)]
    by (simp add: get_mailbox_audit_settings_def)
qed

theorem non_object_body_is_failure_witness:
  "array_client (request_path (row_value [''alice@x.com''])) = Inr array_response
   \<and> json array_response = Inr (PyList [])
   \<and> \<not> is_dict (PyList [])
   \<and> mailboxes_csv scenario_files = FileRows ([''Mailbox''] # [[''alice@x.com''], [''bob@x.com'']])
   \<and> get_mailbox_audit_settings array_client (row_value [''alice@x.com''])
     = \<lparr>requested = ''/users/['alice@x.com']/mailboxSettings'',
        lines = [''Error getting settings for ['alice@x.com']: 'list' object has no attribute 'get''
                 @ [CHR 0x27]],
        returned = None\<rparr>
   \<and> list_all (\<lambda>r. Mailbox r \<noteq> row_value [''alice@x.com''])
        (kept (gather (tasks array_client [[''alice@x.com''], [''bob@x.com'']])))"
  using non_object_body_is_failure
          [of array_client "row_value [''alice@x.com'']" array_response "PyList []"
              scenario_files "[''Mailbox'']" "[[''alice@x.com''], [''bob@x.com'']]"]
    scenario_input
  by (simp add: array_client_def array_response_def fetch_array list_all_iff)

end
